theory Spec2Isabelle
  imports Main
begin

section \<open>The Ray example: \<open>cookbook/integrations/kubernetes/ray_example/ray_job.py\<close>\<close>

text \<open>
  The remote function of the example, \<^verbatim>\<open>def f(x): return x * x\<close>. Python integers are
  unbounded, so the argument and the result are of type \<open>int\<close>.
\<close>

definition f :: "int \<Rightarrow> int" where
  "f x = x * x"

text \<open>
  Ray itself is a library the example imports. The three operations the task uses are
  modelled by what they hand back to the caller: \<^verbatim>\<open>ray.init\<close> connects to the cluster at
  the given address and raises when there is none, \<^verbatim>\<open>g.remote(x)\<close> gives an object
  reference that stands for the value of \<^verbatim>\<open>g(x)\<close>, and \<^verbatim>\<open>ray.get\<close> of a list of
  references gives the list of their values, in the order of the references.
\<close>

datatype cluster = Reachable | Unreachable

datatype ray_error = ConnectionError

datatype 'a object_ref = ObjectRef 'a

definition ray_init :: "cluster \<Rightarrow> ray_error + unit" where
  "ray_init c = (case c of Reachable \<Rightarrow> Inr () | Unreachable \<Rightarrow> Inl ConnectionError)"

definition remote :: "('a \<Rightarrow> 'b) \<Rightarrow> 'a \<Rightarrow> 'b object_ref" where
  "remote g x = ObjectRef (g x)"

fun ray_get :: "'a object_ref list \<Rightarrow> 'a list" where
  "ray_get [] = []"
| "ray_get (ObjectRef v # rs) = v # ray_get rs"

text \<open>Python's \<^verbatim>\<open>range(n)\<close>: the integers from \<open>0\<close> up to \<open>n - 1\<close>, none when \<open>n \<le> 0\<close>.\<close>

definition range_py :: "int \<Rightarrow> int list" where
  "range_py n = [0..n - 1]"

text \<open>
  \<^verbatim>\<open>
  def ray_task() -> typing.List[int]:
      ray.init(address="ray://localhost:10001")
      futures = [f.remote(i) for i in range(5)]
      return ray.get(futures)
  \<close>
  The cluster the address names is the task's only input; the example's comment asks for
  one to be started before the task is run.
\<close>

definition ray_task :: "cluster \<Rightarrow> ray_error + int list" where
  "ray_task c =
     (case ray_init c of
        Inl e \<Rightarrow> Inl e
      | Inr u \<Rightarrow> (let futures = map (remote f) (range_py 5) in Inr (ray_get futures)))"

text \<open>
  The workflow \<^verbatim>\<open>wf\<close> of the example only calls the task. It is \<open>ray_wf\<close> here:
  \<open>wf\<close> is the well-foundedness predicate of HOL.
\<close>

definition ray_wf :: "cluster \<Rightarrow> ray_error + int list" where
  "ray_wf c = ray_task c"

section \<open>The image specification of \<open>cookbook/core/containerization/image_sepc_example.py\<close>\<close>

text \<open>
  Modelled from the spec: the class \<^verbatim>\<open>ImageSpec\<close> is imported by the example and is
  not part of the repository's files; its attributes are those of the data model (section 3):
  the language packages, the system packages, the language runtime version, the
  environment (a dictionary, kept as an association list), the target registry, the base
  image, the builder identifier and the source location hints.
\<close>

record image_spec =
  packages :: "string list"
  apt_packages :: "string list"
  python_version :: "string option"
  env :: "(string \<times> string) list"
  registry :: "string option"
  base_image :: "string option"
  builder_identifier :: "string option"
  source_hints :: "string list"

text \<open>
  The one specification the example constructs:
  \<^verbatim>\<open>
  image_spec = ImageSpec(packages=["pandas", "numpy"],
                         python_version="3.9",
                         apt_packages=["git"],
                         env={"Debug": "True"},
                         registry="pingsutw")
  \<close>
  The attributes it does not give are absent.
\<close>

definition example_image_spec :: image_spec where
  "example_image_spec =
     \<lparr> packages = [''pandas'', ''numpy''],
       apt_packages = [''git''],
       python_version = Some ''3.9'',
       env = [(''Debug'', ''True'')],
       registry = Some ''pingsutw'',
       base_image = None,
       builder_identifier = None,
       source_hints = [] \<rparr>"

section \<open>The builder registry\<close>

text \<open>
  Modelled from the spec: the builder capability contract (section 4.2). A builder is a
  capability check \<^verbatim>\<open>can_build(spec) -> bool\<close> and an operation
  \<^verbatim>\<open>build_and_push(spec, tag) -> image_reference\<close> that fails with a
  \<^verbatim>\<open>BuildError\<close> carrying a cause. No builder is part of the repository's files.
\<close>

datatype build_error = BuildError string

record builder =
  can_build :: "image_spec \<Rightarrow> bool"
  build_and_push :: "image_spec \<Rightarrow> string \<Rightarrow> build_error + string"

text \<open>
  Modelled from the spec: a \<^verbatim>\<open>BuilderRegistration\<close> is a builder identifier, a builder
  implementation and a priority integer (section 3). The registry maps identifiers to
  registrations; it is kept as an association list in the order of registration, so that
  the order is there to be quantified over.
\<close>

record registration =
  reg_identifier :: string
  reg_builder :: builder
  reg_priority :: int

type_synonym builder_registry = "(string \<times> registration) list"

datatype registry_error =
    DuplicateBuilderError string
  | UnknownBuilderError string
  | NoCapableBuilderError

text \<open>
  Modelled from the spec: \<^verbatim>\<open>register(identifier, builder, priority)\<close> of section 4.3,
  which fails with \<^verbatim>\<open>DuplicateBuilderError\<close> when the identifier is already registered,
  unless an override is requested. An override replaces the registration where it
  stands; a new identifier goes to the end.
\<close>

fun put_registration :: "string \<Rightarrow> registration \<Rightarrow> builder_registry \<Rightarrow> builder_registry" where
  "put_registration i r [] = [(i, r)]"
| "put_registration i r ((j, q) # regs) =
     (if i = j then (i, r) # regs else (j, q) # put_registration i r regs)"

definition register ::
  "builder_registry \<Rightarrow> string \<Rightarrow> builder \<Rightarrow> int \<Rightarrow> bool \<Rightarrow> registry_error + builder_registry"
where
  "register regs i b p override =
     (if map_of regs i \<noteq> None \<and> \<not> override then Inl (DuplicateBuilderError i)
      else Inr (put_registration i
                  \<lparr> reg_identifier = i, reg_builder = b, reg_priority = p \<rparr> regs))"

text \<open>
  Modelled from the spec: the registrations in descending priority order. The sort is
  stable, so registrations of equal priority stay in the order of registration.
\<close>

definition by_priority :: "builder_registry \<Rightarrow> registration list" where
  "by_priority regs = sort_key (\<lambda>r. - reg_priority r) (map snd regs)"

text \<open>
  Modelled from the spec: \<^verbatim>\<open>resolve(spec) -> Builder\<close> of section 4.3. If the
  specification names a builder, the identifier is looked up directly and the lookup
  fails with \<^verbatim>\<open>UnknownBuilderError\<close> when it is absent; otherwise the registrations are
  gone through in descending priority order and the first one whose \<^verbatim>\<open>can_build(spec)\<close>
  is true is returned, \<^verbatim>\<open>NoCapableBuilderError\<close> when there is none.
  \<open>resolve_registration\<close> gives the registration chosen, \<open>resolve\<close> its builder.
\<close>

definition resolve_registration ::
  "builder_registry \<Rightarrow> image_spec \<Rightarrow> registry_error + registration"
where
  "resolve_registration regs spec =
     (case builder_identifier spec of
        Some i \<Rightarrow>
          (case map_of regs i of
             None \<Rightarrow> Inl (UnknownBuilderError i)
           | Some r \<Rightarrow> Inr r)
      | None \<Rightarrow>
          (case find (\<lambda>r. can_build (reg_builder r) spec) (by_priority regs) of
             None \<Rightarrow> Inl NoCapableBuilderError
           | Some r \<Rightarrow> Inr r))"

definition resolve :: "builder_registry \<Rightarrow> image_spec \<Rightarrow> registry_error + builder" where
  "resolve regs spec =
     (case resolve_registration regs spec of
        Inl e \<Rightarrow> Inl e
      | Inr r \<Rightarrow> Inr (reg_builder r))"

text \<open>
  The scenario of section 8: three builders of priorities 10, 5 and 1, of which only the
  one of priority 5 can build the specification. A second builder that can build, also
  registered with priority 5, and a third of priority 7 give the registries in which
  more than one builder qualifies. Each builder says which it is in what it produces.
\<close>

definition builder_10 :: builder where
  "builder_10 = \<lparr> can_build = (\<lambda>s. False),
                  build_and_push = (\<lambda>s t. Inl (BuildError ''ten: unsupported'')) \<rparr>"

definition builder_5 :: builder where
  "builder_5 = \<lparr> can_build = (\<lambda>s. True),
                 build_and_push = (\<lambda>s t. Inr (''five:'' @ t)) \<rparr>"

definition builder_1 :: builder where
  "builder_1 = \<lparr> can_build = (\<lambda>s. False),
                 build_and_push = (\<lambda>s t. Inl (BuildError ''one: unsupported'')) \<rparr>"

definition builder_5b :: builder where
  "builder_5b = \<lparr> can_build = (\<lambda>s. True),
                  build_and_push = (\<lambda>s t. Inr (''five-b:'' @ t)) \<rparr>"

definition builder_7 :: builder where
  "builder_7 = \<lparr> can_build = (\<lambda>s. True),
                 build_and_push = (\<lambda>s t. Inr (''seven:'' @ t)) \<rparr>"

definition reg_10 :: registration where
  "reg_10 = \<lparr> reg_identifier = ''ten'', reg_builder = builder_10, reg_priority = 10 \<rparr>"

definition reg_5 :: registration where
  "reg_5 = \<lparr> reg_identifier = ''five'', reg_builder = builder_5, reg_priority = 5 \<rparr>"

definition reg_1 :: registration where
  "reg_1 = \<lparr> reg_identifier = ''one'', reg_builder = builder_1, reg_priority = 1 \<rparr>"

definition reg_5b :: registration where
  "reg_5b = \<lparr> reg_identifier = ''five-b'', reg_builder = builder_5b, reg_priority = 5 \<rparr>"

definition reg_7 :: registration where
  "reg_7 = \<lparr> reg_identifier = ''seven'', reg_builder = builder_7, reg_priority = 7 \<rparr>"

section \<open>Properties of the Ray example\<close>

lemma ray_get_remote: "ray_get (map (remote g) xs) = map g xs"
  by (induction xs) (simp_all add: remote_def)

lemma range_py_5: "range_py 5 = [0, 1, 2, 3, 4]"
  by (simp add: range_py_def upto.simps)

text \<open>
  Claim C9. The remote function \<open>f\<close> squares its argument, so on a reachable cluster the
  task, and with it the workflow, returns the list \<open>[0, 1, 4, 9, 16]\<close>: the squares of
  \<open>0\<close> to \<open>4\<close> in increasing order, five integers.
\<close>

theorem ray_example_result:
  "(\<forall>x. f x = x * x)
   \<and> ray_task Reachable = Inr [0, 1, 4, 9, 16]
   \<and> ray_wf Reachable = Inr [0, 1, 4, 9, 16]
   \<and> (\<exists>xs. ray_wf Reachable = Inr xs \<and> xs = map (\<lambda>i. i * i) [0..4]
          \<and> length xs = 5 \<and> sorted xs)"
proof -
  have "ray_task Reachable = Inr (map f (range_py 5))"
    by (simp add: ray_task_def ray_init_def ray_get_remote)
  then have t: "ray_task Reachable = Inr (map f [0, 1, 2, 3, 4])"
    by (simp only: range_py_5)
  have sq: "map f [0, 1, 2, 3, 4] = [0, 1, 4, 9, 16]"
    by (simp add: f_def)
  have up: "[0..4] = [0, 1, 2, 3, 4 :: int]"
    using range_py_5 by (simp add: range_py_def)
  show ?thesis
    using t sq up by (simp add: ray_wf_def f_def)
qed

section \<open>Properties of builder resolution\<close>

lemma find_sorted_least:
  "find P xs = Some y \<Longrightarrow> sorted (map k xs) \<Longrightarrow>
     y \<in> set xs \<and> P y \<and> (\<forall>z\<in>set xs. P z \<longrightarrow> k y \<le> k z)"
  by (induction xs) (auto split: if_splits)

lemma set_by_priority: "set (by_priority regs) = snd ` set regs"
  by (simp add: by_priority_def)

lemma sorted_by_priority: "sorted (map (\<lambda>r. - reg_priority r) (by_priority regs))"
  by (simp add: by_priority_def)

lemma put_registration_new:
  "map_of regs i = None \<Longrightarrow> put_registration i r regs = regs @ [(i, r)]"
  by (induction regs) (auto split: if_splits)

lemma register_new:
  "map_of regs i = None \<Longrightarrow>
     register regs i b p ov =
       Inr (regs @ [(i, \<lparr> reg_identifier = i, reg_builder = b, reg_priority = p \<rparr>)])"
  by (simp add: register_def put_registration_new)

lemma resolve_registration_named:
  "builder_identifier spec = Some i \<Longrightarrow>
     resolve_registration regs spec =
       (case map_of regs i of None \<Rightarrow> Inl (UnknownBuilderError i) | Some r \<Rightarrow> Inr r)"
  by (simp add: resolve_registration_def)

lemma resolve_registration_none:
  assumes "builder_identifier spec = None"
    and "\<forall>r\<in>snd ` set regs. \<not> can_build (reg_builder r) spec"
  shows "resolve_registration regs spec = Inl NoCapableBuilderError"
proof -
  have "find (\<lambda>r. can_build (reg_builder r) spec) (by_priority regs) = None"
    using assms(2) by (simp add: find_None_iff set_by_priority)
  then show ?thesis
    using assms(1) by (simp add: resolve_registration_def)
qed

lemma resolve_registration_best:
  assumes "builder_identifier spec = None"
    and "resolve_registration regs spec = Inr q"
  shows "q \<in> snd ` set regs \<and> can_build (reg_builder q) spec \<and>
         (\<forall>r\<in>snd ` set regs. can_build (reg_builder r) spec \<longrightarrow> reg_priority r \<le> reg_priority q)"
proof -
  from assms have "find (\<lambda>r. can_build (reg_builder r) spec) (by_priority regs) = Some q"
    by (simp add: resolve_registration_def split: option.splits)
  from find_sorted_least [OF this sorted_by_priority]
  show ?thesis by (simp add: set_by_priority)
qed

lemma resolve_registration_unique:
  assumes none: "builder_identifier spec = None"
    and mem: "r \<in> snd ` set regs"
    and cap: "can_build (reg_builder r) spec"
    and top: "\<forall>r'\<in>snd ` set regs. can_build (reg_builder r') spec \<longrightarrow>
                r' = r \<or> reg_priority r' < reg_priority r"
  shows "resolve_registration regs spec = Inr r"
proof (cases "find (\<lambda>r. can_build (reg_builder r) spec) (by_priority regs)")
  case None
  then show ?thesis
    using mem cap by (auto simp: find_None_iff set_by_priority)
next
  case (Some q)
  then have res: "resolve_registration regs spec = Inr q"
    using none by (simp add: resolve_registration_def)
  from resolve_registration_best [OF none res]
  have q: "q \<in> snd ` set regs" "can_build (reg_builder q) spec"
    "reg_priority r \<le> reg_priority q"
    using mem cap by auto
  from top q(1,2) have "q = r \<or> reg_priority q < reg_priority r" by blast
  with q(3) have "q = r" by auto
  with res show ?thesis by simp
qed

lemma find_filter:
  "find P xs = (case filter P xs of [] \<Rightarrow> None | x # ys \<Rightarrow> Some x)"
  by (induction xs) auto

lemma insort_key_front:
  "\<forall>y\<in>set l. k q \<le> k y \<Longrightarrow> insort_key k q l = q # l"
  by (cases l) auto

lemma sort_key_front:
  "\<forall>a\<in>set as. k q < k a \<Longrightarrow> \<forall>b\<in>set bs. k q \<le> k b \<Longrightarrow>
     sort_key k (as @ q # bs) = q # sort_key k (as @ bs)"
proof (induction as)
  case Nil
  then show ?case by (simp add: insort_key_front)
next
  case (Cons a as)
  then have "sort_key k (as @ q # bs) = q # sort_key k (as @ bs)" by simp
  moreover have "\<not> k a \<le> k q" using Cons.prems(1) by auto
  ultimately show ?case by simp
qed

lemma find_sort_key_first_best:
  assumes xs: "xs = ys @ q # zs" and q: "P q"
    and before: "\<forall>r\<in>set ys. P r \<longrightarrow> k q < k r"
    and after: "\<forall>r\<in>set zs. P r \<longrightarrow> k q \<le> k r"
  shows "find P (sort_key k xs) = Some q"
proof -
  have "filter P (sort_key k xs) = sort_key k (filter P ys @ q # filter P zs)"
    using xs q by (simp add: filter_sort)
  also have "\<dots> = q # sort_key k (filter P ys @ filter P zs)"
    using before after by (intro sort_key_front) auto
  finally show ?thesis by (simp add: find_filter)
qed

lemma first_best_exists:
  "\<exists>x\<in>set xs. P x \<Longrightarrow>
     \<exists>ys q zs. xs = ys @ q # zs \<and> P q
       \<and> (\<forall>r\<in>set ys. P r \<longrightarrow> p r < p q)
       \<and> (\<forall>r\<in>set zs. P r \<longrightarrow> p r \<le> (p q :: int))"
proof (induction xs)
  case Nil
  then show ?case by simp
next
  case (Cons x xs)
  show ?case
  proof (cases "\<exists>y\<in>set xs. P y")
    case False
    with Cons.prems have "P x" by auto
    with False have "x # xs = [] @ x # xs \<and> P x
       \<and> (\<forall>r\<in>set []. P r \<longrightarrow> p r < p x) \<and> (\<forall>r\<in>set xs. P r \<longrightarrow> p r \<le> p x)"
      by auto
    then show ?thesis by blast
  next
    case True
    from Cons.IH [OF True] obtain ys q zs where d: "xs = ys @ q # zs" "P q"
      "\<forall>r\<in>set ys. P r \<longrightarrow> p r < p q" "\<forall>r\<in>set zs. P r \<longrightarrow> p r \<le> p q"
      by blast
    show ?thesis
    proof (cases "P x \<and> p q \<le> p x")
      case True
      with d have "x # xs = [] @ x # xs \<and> P x
         \<and> (\<forall>r\<in>set []. P r \<longrightarrow> p r < p x) \<and> (\<forall>r\<in>set xs. P r \<longrightarrow> p r \<le> p x)"
        by fastforce
      then show ?thesis by blast
    next
      case False
      with d have "x # xs = (x # ys) @ q # zs \<and> P q
         \<and> (\<forall>r\<in>set (x # ys). P r \<longrightarrow> p r < p q) \<and> (\<forall>r\<in>set zs. P r \<longrightarrow> p r \<le> p q)"
        by auto
      then show ?thesis by blast
    qed
  qed
qed

lemma resolve_registration_first_best:
  assumes none: "builder_identifier spec = None"
    and split: "map snd regs = ys @ q # zs"
    and cap: "can_build (reg_builder q) spec"
    and before: "\<forall>r\<in>set ys. can_build (reg_builder r) spec \<longrightarrow>
                   reg_priority r < reg_priority q"
    and after: "\<forall>r\<in>set zs. can_build (reg_builder r) spec \<longrightarrow>
                  reg_priority r \<le> reg_priority q"
  shows "resolve_registration regs spec = Inr q"
proof -
  have "find (\<lambda>r. can_build (reg_builder r) spec)
          (sort_key (\<lambda>r. - reg_priority r) (map snd regs)) = Some q"
    using split cap before after
    by (intro find_sort_key_first_best [where ys = ys and zs = zs]) auto
  then show ?thesis
    using none by (simp add: resolve_registration_def by_priority_def)
qed

lemma resolve_registration_capable:
  assumes none: "builder_identifier spec = None"
    and some: "\<exists>r\<in>snd ` set regs. can_build (reg_builder r) spec"
  shows "\<exists>ys c zs. map snd regs = ys @ c # zs \<and> can_build (reg_builder c) spec
           \<and> (\<forall>r\<in>set ys. can_build (reg_builder r) spec \<longrightarrow>
                 reg_priority r < reg_priority c)
           \<and> (\<forall>r\<in>set zs. can_build (reg_builder r) spec \<longrightarrow>
                 reg_priority r \<le> reg_priority c)
           \<and> resolve_registration regs spec = Inr c"
proof -
  from some have "\<exists>r\<in>set (map snd regs). can_build (reg_builder r) spec" by simp
  from first_best_exists [OF this, of reg_priority]
  obtain ys c zs where d: "map snd regs = ys @ c # zs" "can_build (reg_builder c) spec"
    "\<forall>r\<in>set ys. can_build (reg_builder r) spec \<longrightarrow> reg_priority r < reg_priority c"
    "\<forall>r\<in>set zs. can_build (reg_builder r) spec \<longrightarrow> reg_priority r \<le> reg_priority c"
    by blast
  from resolve_registration_first_best [OF none d]
  have "resolve_registration regs spec = Inr c" .
  with d show ?thesis by blast
qed

lemma resolve_of_registration:
  "resolve_registration regs spec = Inr q \<Longrightarrow> resolve regs spec = Inr (reg_builder q)"
  by (simp add: resolve_def)

lemma resolve_no_capable_iff:
  assumes none: "builder_identifier spec = None"
  shows "(resolve regs spec = Inl NoCapableBuilderError) =
         (\<forall>r\<in>snd ` set regs. \<not> can_build (reg_builder r) spec)"
proof
  assume l: "resolve regs spec = Inl NoCapableBuilderError"
  show "\<forall>r\<in>snd ` set regs. \<not> can_build (reg_builder r) spec"
  proof (rule ccontr)
    assume "\<not> (\<forall>r\<in>snd ` set regs. \<not> can_build (reg_builder r) spec)"
    then have "\<exists>r\<in>snd ` set regs. can_build (reg_builder r) spec" by blast
    from resolve_registration_capable [OF none this]
    obtain c where "resolve_registration regs spec = Inr c" by blast
    then have "resolve regs spec = Inr (reg_builder c)" by (rule resolve_of_registration)
    with l show False by simp
  qed
next
  assume "\<forall>r\<in>snd ` set regs. \<not> can_build (reg_builder r) spec"
  from resolve_registration_none [OF none this]
  show "resolve regs spec = Inl NoCapableBuilderError" by (simp add: resolve_def)
qed

lemma resolve_order_independent:
  assumes none: "builder_identifier spec = None"
    and same: "set regs' = set regs"
    and inj: "\<forall>a\<in>snd ` set regs. \<forall>b\<in>snd ` set regs.
                can_build (reg_builder a) spec \<and> can_build (reg_builder b) spec
                \<and> reg_priority a = reg_priority b \<longrightarrow> a = b"
  shows "resolve regs' spec = resolve regs spec"
proof (cases "\<exists>r\<in>snd ` set regs. can_build (reg_builder r) spec")
  case False
  then have n: "\<forall>r\<in>snd ` set regs. \<not> can_build (reg_builder r) spec" by blast
  then have n': "\<forall>r\<in>snd ` set regs'. \<not> can_build (reg_builder r) spec" using same by simp
  from n n' show ?thesis
    using resolve_no_capable_iff [OF none, of regs] resolve_no_capable_iff [OF none, of regs']
    by simp
next
  case True
  then obtain c where c: "resolve_registration regs spec = Inr c"
    using resolve_registration_capable [OF none] by blast
  from resolve_registration_best [OF none c]
  have b: "c \<in> snd ` set regs" "can_build (reg_builder c) spec"
    "\<forall>r\<in>snd ` set regs. can_build (reg_builder r) spec \<longrightarrow> reg_priority r \<le> reg_priority c"
    by auto
  have top: "\<forall>r'\<in>snd ` set regs. can_build (reg_builder r') spec \<longrightarrow>
               r' = c \<or> reg_priority r' < reg_priority c"
  proof (intro ballI impI)
    fix r' assume r': "r' \<in> snd ` set regs" "can_build (reg_builder r') spec"
    with b(3) have "reg_priority r' \<le> reg_priority c" by blast
    moreover have "reg_priority r' = reg_priority c \<Longrightarrow> r' = c"
      using inj r' b(1,2) by blast
    ultimately show "r' = c \<or> reg_priority r' < reg_priority c" by auto
  qed
  have "resolve_registration regs' spec = Inr c"
    using resolve_registration_unique [OF none, of c regs'] b(1,2) top same by simp
  with c show ?thesis by (simp add: resolve_def)
qed

text \<open>
  Claim C6. Builder resolution, for every registry and every specification.
  When the specification names a builder, the identifier is looked up directly: an absent
  identifier gives \<^verbatim>\<open>UnknownBuilderError\<close>, a registered one its builder.
  When it names none: resolution fails with \<^verbatim>\<open>NoCapableBuilderError\<close> exactly when
  no registered builder can build the specification. Whenever one can, a builder is
  returned, and the registration it comes from is the first one in descending priority
  order that can build: it is registered, it can build, every registration before it in
  the order of registration that can build has a strictly lower priority, every one after
  it that can build has a lower or equal priority, and so none that can build has a higher
  priority. Conversely a registration that stands so in the registry is the one resolved.
  A registration that can build while every other one that can has a strictly lower
  priority is chosen in whatever order the builders were registered, and when no two
  registrations that can build share a priority, two registries with the same
  registrations resolve alike. So of three builders of priorities 10, 5 and 1 of which
  only the one of priority 5 can build, that one is selected regardless of the order of
  registration.
\<close>

theorem resolve_selects:
  "(builder_identifier spec = Some i \<and> map_of regs i = None \<longrightarrow>
      resolve regs spec = Inl (UnknownBuilderError i))
   \<and> (builder_identifier spec = Some i \<and> map_of regs i = Some q \<longrightarrow>
      resolve regs spec = Inr (reg_builder q))
   \<and> (builder_identifier spec = None \<longrightarrow>
      (resolve regs spec = Inl NoCapableBuilderError)
        = (\<forall>r'\<in>snd ` set regs. \<not> can_build (reg_builder r') spec))
   \<and> (builder_identifier spec = None
        \<and> (\<exists>r'\<in>snd ` set regs. can_build (reg_builder r') spec) \<longrightarrow>
      (\<exists>ys c zs. map snd regs = ys @ c # zs
         \<and> can_build (reg_builder c) spec
         \<and> (\<forall>r'\<in>set ys. can_build (reg_builder r') spec \<longrightarrow>
               reg_priority r' < reg_priority c)
         \<and> (\<forall>r'\<in>set zs. can_build (reg_builder r') spec \<longrightarrow>
               reg_priority r' \<le> reg_priority c)
         \<and> (\<forall>r'\<in>snd ` set regs. can_build (reg_builder r') spec \<longrightarrow>
               reg_priority r' \<le> reg_priority c)
         \<and> resolve_registration regs spec = Inr c
         \<and> resolve regs spec = Inr (reg_builder c)))
   \<and> (builder_identifier spec = None \<and> map snd regs = us @ t # vs
        \<and> can_build (reg_builder t) spec
        \<and> (\<forall>r'\<in>set us. can_build (reg_builder r') spec \<longrightarrow>
              reg_priority r' < reg_priority t)
        \<and> (\<forall>r'\<in>set vs. can_build (reg_builder r') spec \<longrightarrow>
              reg_priority r' \<le> reg_priority t) \<longrightarrow>
      resolve_registration regs spec = Inr t \<and> resolve regs spec = Inr (reg_builder t))
   \<and> (builder_identifier spec = None \<and> resolve_registration regs spec = Inr q' \<longrightarrow>
      resolve regs spec = Inr (reg_builder q')
      \<and> q' \<in> snd ` set regs \<and> can_build (reg_builder q') spec
      \<and> (\<forall>r'\<in>snd ` set regs. can_build (reg_builder r') spec \<longrightarrow>
            reg_priority r' \<le> reg_priority q'))
   \<and> (builder_identifier spec = None \<and> r \<in> snd ` set regs
        \<and> can_build (reg_builder r) spec
        \<and> (\<forall>r'\<in>snd ` set regs. can_build (reg_builder r') spec \<longrightarrow>
              r' = r \<or> reg_priority r' < reg_priority r) \<longrightarrow>
      resolve regs spec = Inr (reg_builder r))
   \<and> (builder_identifier spec = None \<and> set regs' = set regs
        \<and> (\<forall>a\<in>snd ` set regs. \<forall>b\<in>snd ` set regs.
              can_build (reg_builder a) spec \<and> can_build (reg_builder b) spec
              \<and> reg_priority a = reg_priority b \<longrightarrow> a = b) \<longrightarrow>
      resolve regs' spec = resolve regs spec)"
proof (intro conjI impI)
  assume "builder_identifier spec = Some i \<and> map_of regs i = None"
  then show "resolve regs spec = Inl (UnknownBuilderError i)"
    by (simp add: resolve_def resolve_registration_named)
next
  assume "builder_identifier spec = Some i \<and> map_of regs i = Some q"
  then show "resolve regs spec = Inr (reg_builder q)"
    by (simp add: resolve_def resolve_registration_named)
next
  assume "builder_identifier spec = None"
  then show "(resolve regs spec = Inl NoCapableBuilderError)
        = (\<forall>r'\<in>snd ` set regs. \<not> can_build (reg_builder r') spec)"
    by (rule resolve_no_capable_iff)
next
  assume a: "builder_identifier spec = None
        \<and> (\<exists>r'\<in>snd ` set regs. can_build (reg_builder r') spec)"
  then have none: "builder_identifier spec = None"
    and some: "\<exists>r'\<in>snd ` set regs. can_build (reg_builder r') spec"
    by simp_all
  from resolve_registration_capable [OF none some]
  obtain ys c zs where d: "map snd regs = ys @ c # zs" "can_build (reg_builder c) spec"
    "\<forall>r'\<in>set ys. can_build (reg_builder r') spec \<longrightarrow> reg_priority r' < reg_priority c"
    "\<forall>r'\<in>set zs. can_build (reg_builder r') spec \<longrightarrow> reg_priority r' \<le> reg_priority c"
    "resolve_registration regs spec = Inr c"
    by blast
  from resolve_registration_best [OF none d(5)]
  have top: "\<forall>r'\<in>snd ` set regs. can_build (reg_builder r') spec \<longrightarrow>
      reg_priority r' \<le> reg_priority c"
    by simp
  from d(5) have "resolve regs spec = Inr (reg_builder c)"
    by (rule resolve_of_registration)
  with d top show "\<exists>ys c zs. map snd regs = ys @ c # zs
         \<and> can_build (reg_builder c) spec
         \<and> (\<forall>r'\<in>set ys. can_build (reg_builder r') spec \<longrightarrow>
               reg_priority r' < reg_priority c)
         \<and> (\<forall>r'\<in>set zs. can_build (reg_builder r') spec \<longrightarrow>
               reg_priority r' \<le> reg_priority c)
         \<and> (\<forall>r'\<in>snd ` set regs. can_build (reg_builder r') spec \<longrightarrow>
               reg_priority r' \<le> reg_priority c)
         \<and> resolve_registration regs spec = Inr c
         \<and> resolve regs spec = Inr (reg_builder c)"
    by blast
next
  assume a: "builder_identifier spec = None \<and> map snd regs = us @ t # vs
        \<and> can_build (reg_builder t) spec
        \<and> (\<forall>r'\<in>set us. can_build (reg_builder r') spec \<longrightarrow>
              reg_priority r' < reg_priority t)
        \<and> (\<forall>r'\<in>set vs. can_build (reg_builder r') spec \<longrightarrow>
              reg_priority r' \<le> reg_priority t)"
  then have t: "resolve_registration regs spec = Inr t"
    using resolve_registration_first_best [of spec regs us t vs] by blast
  then show "resolve_registration regs spec = Inr t" .
  from t show "resolve regs spec = Inr (reg_builder t)"
    by (rule resolve_of_registration)
next
  assume a: "builder_identifier spec = None \<and> resolve_registration regs spec = Inr q'"
  then show "resolve regs spec = Inr (reg_builder q')"
    by (simp add: resolve_of_registration)
  from resolve_registration_best [of spec regs q'] a
  show "q' \<in> snd ` set regs" by simp
  from resolve_registration_best [of spec regs q'] a
  show "can_build (reg_builder q') spec" by simp
  from resolve_registration_best [of spec regs q'] a
  show "\<forall>r'\<in>snd ` set regs. can_build (reg_builder r') spec \<longrightarrow>
            reg_priority r' \<le> reg_priority q'" by simp
next
  assume "builder_identifier spec = None \<and> r \<in> snd ` set regs
        \<and> can_build (reg_builder r) spec
        \<and> (\<forall>r'\<in>snd ` set regs. can_build (reg_builder r') spec \<longrightarrow>
              r' = r \<or> reg_priority r' < reg_priority r)"
  then have "resolve_registration regs spec = Inr r"
    using resolve_registration_unique [of spec r regs] by blast
  then show "resolve regs spec = Inr (reg_builder r)"
    by (rule resolve_of_registration)
next
  assume "builder_identifier spec = None \<and> set regs' = set regs
        \<and> (\<forall>a\<in>snd ` set regs. \<forall>b\<in>snd ` set regs.
              can_build (reg_builder a) spec \<and> can_build (reg_builder b) spec
              \<and> reg_priority a = reg_priority b \<longrightarrow> a = b)"
  then show "resolve regs' spec = resolve regs spec"
    using resolve_order_independent [of spec regs' regs] by blast
qed

text \<open>
  The scenarios: the builders of priorities 10, 5 and 1 in three orders of registration;
  a specification that names a registered builder and one that names an unknown one; a
  registry in which no builder can build; two builders that can build and share the top
  priority, in both orders, where the one registered first is chosen; two that can build
  with different priorities, in both orders, where the higher one is chosen.
\<close>

lemmas ex_defs = example_image_spec_def reg_10_def reg_5_def reg_1_def reg_5b_def reg_7_def
  builder_10_def builder_5_def builder_1_def builder_5b_def builder_7_def

theorem resolve_selects_witness:
  "resolve [(''ten'', reg_10), (''five'', reg_5), (''one'', reg_1)] example_image_spec
     = Inr builder_5
   \<and> resolve [(''one'', reg_1), (''ten'', reg_10), (''five'', reg_5)] example_image_spec
     = Inr builder_5
   \<and> resolve [(''five'', reg_5), (''one'', reg_1), (''ten'', reg_10)] example_image_spec
     = Inr builder_5
   \<and> resolve [(''one'', reg_1), (''five'', reg_5), (''ten'', reg_10)] example_image_spec
     = resolve [(''ten'', reg_10), (''five'', reg_5), (''one'', reg_1)] example_image_spec
   \<and> resolve [(''ten'', reg_10), (''five'', reg_5), (''one'', reg_1)]
        (example_image_spec \<lparr> builder_identifier := Some ''ten'' \<rparr>)
     = Inr builder_10
   \<and> resolve [(''ten'', reg_10), (''five'', reg_5), (''one'', reg_1)]
        (example_image_spec \<lparr> builder_identifier := Some ''nine'' \<rparr>)
     = Inl (UnknownBuilderError ''nine'')
   \<and> resolve [(''ten'', reg_10), (''one'', reg_1)] example_image_spec
     = Inl NoCapableBuilderError
   \<and> resolve [(''ten'', reg_10), (''five'', reg_5), (''five-b'', reg_5b)] example_image_spec
     \<noteq> Inl NoCapableBuilderError
   \<and> resolve [(''ten'', reg_10), (''five'', reg_5), (''five-b'', reg_5b)] example_image_spec
     = Inr builder_5
   \<and> resolve [(''five-b'', reg_5b), (''ten'', reg_10), (''five'', reg_5)] example_image_spec
     = Inr builder_5b
   \<and> resolve [(''five'', reg_5), (''seven'', reg_7)] example_image_spec = Inr builder_7
   \<and> resolve [(''seven'', reg_7), (''five'', reg_5)] example_image_spec = Inr builder_7
   \<and> (\<exists>c. resolve_registration [(''five'', reg_5), (''seven'', reg_7), (''five-b'', reg_5b)]
             example_image_spec = Inr c
          \<and> can_build (reg_builder c) example_image_spec \<and> 7 \<le> reg_priority c)
   \<and> (resolve_registration [(''one'', reg_1), (''five'', reg_5), (''ten'', reg_10)]
         example_image_spec = Inr reg_5
      \<and> can_build (reg_builder reg_5) example_image_spec
      \<and> reg_priority reg_5 = 5)"
proof -
  have none: "builder_identifier example_image_spec = None"
    by (simp add: example_image_spec_def)
  have w1: "resolve [(''ten'', reg_10), (''five'', reg_5), (''one'', reg_1)] example_image_spec
     = Inr builder_5"
    using none resolve_selects [where spec = example_image_spec
        and regs = "[(''ten'', reg_10), (''five'', reg_5), (''one'', reg_1)]"
        and r = reg_5,
        THEN conjunct2, THEN conjunct2, THEN conjunct2, THEN conjunct2,
        THEN conjunct2, THEN conjunct2, THEN conjunct1]
    by (simp add: ex_defs)
  have w2: "resolve [(''one'', reg_1), (''ten'', reg_10), (''five'', reg_5)] example_image_spec
     = Inr builder_5"
    using none resolve_selects [where spec = example_image_spec
        and regs = "[(''one'', reg_1), (''ten'', reg_10), (''five'', reg_5)]"
        and r = reg_5,
        THEN conjunct2, THEN conjunct2, THEN conjunct2, THEN conjunct2,
        THEN conjunct2, THEN conjunct2, THEN conjunct1]
    by (simp add: ex_defs)
  have w3: "resolve [(''five'', reg_5), (''one'', reg_1), (''ten'', reg_10)] example_image_spec
     = Inr builder_5"
    using none resolve_selects [where spec = example_image_spec
        and regs = "[(''five'', reg_5), (''one'', reg_1), (''ten'', reg_10)]"
        and r = reg_5,
        THEN conjunct2, THEN conjunct2, THEN conjunct2, THEN conjunct2,
        THEN conjunct2, THEN conjunct2, THEN conjunct1]
    by (simp add: ex_defs)
  have same: "set [(''one'', reg_1), (''five'', reg_5), (''ten'', reg_10)]
      = set [(''ten'', reg_10), (''five'', reg_5), (''one'', reg_1)]"
    by auto
  have apart: "\<forall>a\<in>snd ` set [(''ten'', reg_10), (''five'', reg_5), (''one'', reg_1)].
      \<forall>b\<in>snd ` set [(''ten'', reg_10), (''five'', reg_5), (''one'', reg_1)].
        can_build (reg_builder a) example_image_spec
        \<and> can_build (reg_builder b) example_image_spec
        \<and> reg_priority a = reg_priority b \<longrightarrow> a = b"
    by (simp add: ex_defs)
  have w4: "resolve [(''one'', reg_1), (''five'', reg_5), (''ten'', reg_10)] example_image_spec
     = resolve [(''ten'', reg_10), (''five'', reg_5), (''one'', reg_1)] example_image_spec"
    using none same apart resolve_selects [where spec = example_image_spec
        and regs = "[(''ten'', reg_10), (''five'', reg_5), (''one'', reg_1)]"
        and regs' = "[(''one'', reg_1), (''five'', reg_5), (''ten'', reg_10)]",
        THEN conjunct2, THEN conjunct2, THEN conjunct2, THEN conjunct2,
        THEN conjunct2, THEN conjunct2, THEN conjunct2]
    by blast
  have w5: "resolve [(''ten'', reg_10), (''five'', reg_5), (''one'', reg_1)]
        (example_image_spec \<lparr> builder_identifier := Some ''ten'' \<rparr>)
     = Inr builder_10"
    using resolve_selects [where spec = "example_image_spec \<lparr> builder_identifier := Some ''ten'' \<rparr>"
        and i = "''ten''" and regs = "[(''ten'', reg_10), (''five'', reg_5), (''one'', reg_1)]"
        and q = reg_10,
        THEN conjunct2, THEN conjunct1]
    by (simp add: ex_defs)
  have w6: "resolve [(''ten'', reg_10), (''five'', reg_5), (''one'', reg_1)]
        (example_image_spec \<lparr> builder_identifier := Some ''nine'' \<rparr>)
     = Inl (UnknownBuilderError ''nine'')"
    using resolve_selects [where spec = "example_image_spec \<lparr> builder_identifier := Some ''nine'' \<rparr>"
        and i = "''nine''" and regs = "[(''ten'', reg_10), (''five'', reg_5), (''one'', reg_1)]",
        THEN conjunct1]
    by (simp add: ex_defs)
  have w7: "resolve [(''ten'', reg_10), (''one'', reg_1)] example_image_spec
     = Inl NoCapableBuilderError"
    using none resolve_selects [where spec = example_image_spec
        and regs = "[(''ten'', reg_10), (''one'', reg_1)]",
        THEN conjunct2, THEN conjunct2, THEN conjunct1]
    by (simp add: ex_defs)
  have w8: "resolve [(''ten'', reg_10), (''five'', reg_5), (''five-b'', reg_5b)] example_image_spec
     \<noteq> Inl NoCapableBuilderError"
    using none resolve_selects [where spec = example_image_spec
        and regs = "[(''ten'', reg_10), (''five'', reg_5), (''five-b'', reg_5b)]",
        THEN conjunct2, THEN conjunct2, THEN conjunct1]
    by (simp add: ex_defs)
  have w9: "resolve [(''ten'', reg_10), (''five'', reg_5), (''five-b'', reg_5b)] example_image_spec
     = Inr builder_5"
    using none resolve_selects [where spec = example_image_spec
        and regs = "[(''ten'', reg_10), (''five'', reg_5), (''five-b'', reg_5b)]"
        and us = "[reg_10]" and t = reg_5 and vs = "[reg_5b]",
        THEN conjunct2, THEN conjunct2, THEN conjunct2, THEN conjunct2,
        THEN conjunct1]
    by (simp add: ex_defs)
  have w10: "resolve [(''five-b'', reg_5b), (''ten'', reg_10), (''five'', reg_5)] example_image_spec
     = Inr builder_5b"
    using none resolve_selects [where spec = example_image_spec
        and regs = "[(''five-b'', reg_5b), (''ten'', reg_10), (''five'', reg_5)]"
        and us = "[]" and t = reg_5b and vs = "[reg_10, reg_5]",
        THEN conjunct2, THEN conjunct2, THEN conjunct2, THEN conjunct2,
        THEN conjunct1]
    by (simp add: ex_defs)
  have w11: "resolve [(''five'', reg_5), (''seven'', reg_7)] example_image_spec = Inr builder_7"
    using none resolve_selects [where spec = example_image_spec
        and regs = "[(''five'', reg_5), (''seven'', reg_7)]"
        and us = "[reg_5]" and t = reg_7 and vs = "[]",
        THEN conjunct2, THEN conjunct2, THEN conjunct2, THEN conjunct2,
        THEN conjunct1]
    by (simp add: ex_defs)
  have w12: "resolve [(''seven'', reg_7), (''five'', reg_5)] example_image_spec = Inr builder_7"
    using none resolve_selects [where spec = example_image_spec
        and regs = "[(''seven'', reg_7), (''five'', reg_5)]"
        and us = "[]" and t = reg_7 and vs = "[reg_5]",
        THEN conjunct2, THEN conjunct2, THEN conjunct2, THEN conjunct2,
        THEN conjunct1]
    by (simp add: ex_defs)
  have some: "\<exists>r'\<in>snd ` set [(''five'', reg_5), (''seven'', reg_7), (''five-b'', reg_5b)].
      can_build (reg_builder r') example_image_spec"
    by (simp add: ex_defs)
  have seven: "reg_7 \<in> snd ` set [(''five'', reg_5), (''seven'', reg_7), (''five-b'', reg_5b)]"
    by simp
  have cap7: "can_build (reg_builder reg_7) example_image_spec"
    by (simp add: ex_defs)
  from resolve_selects [where spec = example_image_spec
      and regs = "[(''five'', reg_5), (''seven'', reg_7), (''five-b'', reg_5b)]",
        THEN conjunct2, THEN conjunct2, THEN conjunct2, THEN conjunct1] none some
  obtain c where c: "resolve_registration [(''five'', reg_5), (''seven'', reg_7), (''five-b'', reg_5b)]
      example_image_spec = Inr c" "can_build (reg_builder c) example_image_spec"
    "\<forall>r'\<in>snd ` set [(''five'', reg_5), (''seven'', reg_7), (''five-b'', reg_5b)].
       can_build (reg_builder r') example_image_spec \<longrightarrow> reg_priority r' \<le> reg_priority c"
    by blast
  from c(3) seven cap7 have "reg_priority reg_7 \<le> reg_priority c" by blast
  then have "7 \<le> reg_priority c" by (simp add: reg_7_def)
  with c have w13: "\<exists>c. resolve_registration [(''five'', reg_5), (''seven'', reg_7), (''five-b'', reg_5b)]
             example_image_spec = Inr c
          \<and> can_build (reg_builder c) example_image_spec \<and> 7 \<le> reg_priority c"
    by blast
  have chosen: "resolve_registration [(''one'', reg_1), (''five'', reg_5), (''ten'', reg_10)]
      example_image_spec = Inr reg_5"
    by (simp add: resolve_registration_def by_priority_def ex_defs)
  have w14: "can_build (reg_builder reg_5) example_image_spec"
    using none chosen resolve_selects [where spec = example_image_spec
        and regs = "[(''one'', reg_1), (''five'', reg_5), (''ten'', reg_10)]"
        and q' = reg_5,
        THEN conjunct2, THEN conjunct2, THEN conjunct2, THEN conjunct2,
        THEN conjunct2, THEN conjunct1]
    by blast
  have w15: "reg_priority reg_5 = 5"
    by (simp add: reg_5_def)
  from w1 w2 w3 w4 w5 w6 w7 w8 w9 w10 w11 w12 w13 chosen w14 w15
  show ?thesis by (intro conjI)
qed

end
